theory Spec2Isabelle
  imports Main "HOL-Library.AList"
begin

section \<open>The session coordinator (class SlidevFeedbackDO), closeSession and submitFeedback\<close>

text \<open>
  The Durable Object \<^verbatim>\<open>SlidevFeedbackDO\<close> holds the live state of one feedback session:
  the registered sockets, the reaction tally, the current slide, the session data and
  the participant tokens. Each of its handlers is embedded as a function from the state
  before to the state after. The runtime delivers one event at a time to a Durable
  Object and holds further events back while a storage operation is awaited, so a handler
  is one atomic step.

  Conventions of the embedding:
  \<^item> a \<^verbatim>\<open>WebSocket\<close> object is identified by a natural number;
  \<^item> a JavaScript \<^verbatim>\<open>Map\<close> is an association list in insertion order with distinct
    keys (\<^const>\<open>AList.update\<close> overwrites in place or appends, as \<^verbatim>\<open>Map.set\<close> does);
    a \<^verbatim>\<open>Set\<close> is a list without duplicates in insertion order;
  \<^item> slide numbers are integers and counts are natural numbers (the JavaScript numbers
    are exact on integers below \<open>2^53\<close>; a slide number prints in decimal, which is what
    a template literal does for integers of magnitude below \<open>10^21\<close>);
  \<^item> \<^verbatim>\<open>ws.send\<close> throws on the sockets listed in the environment's \<open>broken\<close> field
    and delivers on every other socket; what was delivered is appended to \<open>outbox\<close>;
  \<^item> \<^verbatim>\<open>storage.put\<close> does not fail;
  \<^item> a run is the life of one instance of the class, from its constructor on;
  \<^item> the handlers are typed by \<^verbatim>\<open>WSMessage\<close> of \<^verbatim>\<open>types.ts\<close>: a message is a JSON
    object whose fields have the declared types.
\<close>

subsection \<open>Data\<close>

type_synonym ws = nat

datatype json =
    JNull
  | JBool bool
  | JNum int
  | JStr string
  | JArr "json list"
  | JObj "(string \<times> json) list"

type_synonym obj = "(string \<times> json) list"

text \<open>The value type of the \<^verbatim>\<open>sessions\<close> map: \<^verbatim>\<open>{ role: string; sessionToken: string }\<close>.\<close>

record conn =
  role :: string
  sessionToken :: string

text \<open>
  A parsed client message, by its \<^verbatim>\<open>type\<close> field. \<open>Other\<close> stands for every
  message whose type the \<^verbatim>\<open>switch\<close> of \<^verbatim>\<open>handleWebSocketMessage\<close> has no case for.
  An optional field is an \<open>option\<close>.
\<close>

datatype message =
    Join string "string option"
  | Reaction string int
  | Question string int "string option"
  | SlideChange int
  | Update obj
  | Ping
  | Other

text \<open>What the coordinator sends (the argument of \<^verbatim>\<open>JSON.stringify\<close>).\<close>

datatype out_msg =
    InitMsg int "(string \<times> nat) list" nat
  | ReactionMsg string int nat
  | QuestionMsg string int "string option"
  | SlideChangeMsg int
  | UpdateMsg obj
  | PongMsg
  | ParticipantsMsg nat
  | Forward json

record do_storage =
  stored_currentSlide :: "int option"
  stored_reactions :: "(string \<times> nat) list option"
  stored_sessionData :: "obj option"

record state =
  sessions :: "(ws \<times> conn) list"
  reactions :: "(string \<times> nat) list"
  currentSlide :: int
  sessionData :: obj
  participants :: "string list"
  storage :: do_storage
  outbox :: "(ws \<times> out_msg) list"

text \<open>
  The environment of one event: the sockets on which \<^verbatim>\<open>send\<close> throws while the
  event is handled, and the value of \<^verbatim>\<open>Date.now()\<close>.
\<close>

record env =
  broken :: "ws list"
  now :: nat

datatype exn = SendFailed ws

subsection \<open>Numbers in template literals\<close>

definition digit_char :: "nat \<Rightarrow> char" where
  "digit_char d = ''0123456789'' ! d"

function number_to_string :: "nat \<Rightarrow> string" where
  "number_to_string n =
     (if n < 10 then [digit_char n]
      else number_to_string (n div 10) @ [digit_char (n mod 10)])"
  by pat_completeness auto
termination
  by (relation "measure (\<lambda>n. n)") auto

declare number_to_string.simps [simp del]

definition int_to_string :: "int \<Rightarrow> string" where
  "int_to_string i =
     (if i < 0 then CHR ''-'' # number_to_string (nat (- i))
      else number_to_string (nat i))"

subsection \<open>The constructor\<close>

definition empty_storage :: do_storage where
  "empty_storage =
     \<lparr>stored_currentSlide = None, stored_reactions = None, stored_sessionData = None\<rparr>"

text \<open>
  \<^verbatim>\<open>stored.get('currentSlide') || 1\<close>: a missing value and the value 0 both give 1.
\<close>

definition construct :: "do_storage \<Rightarrow> state" where
  "construct st =
     \<lparr>sessions = [],
      reactions = (case stored_reactions st of None \<Rightarrow> [] | Some r \<Rightarrow> r),
      currentSlide =
        (case stored_currentSlide st of None \<Rightarrow> 1 | Some n \<Rightarrow> if n = 0 then 1 else n),
      sessionData = (case stored_sessionData st of None \<Rightarrow> [] | Some d \<Rightarrow> d),
      participants = [],
      storage = st,
      outbox = []\<rparr>"

subsection \<open>Sending and broadcasting\<close>

definition send :: "env \<Rightarrow> ws \<Rightarrow> out_msg \<Rightarrow> state \<Rightarrow> exn + state" where
  "send e w m s =
     (if w \<in> set (broken e) then Inl (SendFailed w)
      else Inr (s\<lparr>outbox := outbox s @ [(w, m)]\<rparr>))"

text \<open>
  \<^verbatim>\<open>this.sessions.forEach\<close> with the \<^verbatim>\<open>try\<close>/\<^verbatim>\<open>catch\<close> of \<^verbatim>\<open>broadcast\<close>. The
  callback deletes at most the entry it is visiting, so the entries still to visit are
  those of the map at the start of the loop.
\<close>

fun forEach_send :: "env \<Rightarrow> out_msg \<Rightarrow> (ws \<times> conn) list \<Rightarrow> state \<Rightarrow> state" where
  "forEach_send e m [] s = s"
| "forEach_send e m ((w, c) # rest) s =
     forEach_send e m rest
       (case send e w m s of
          Inr s' \<Rightarrow> s'
        | Inl _ \<Rightarrow> s\<lparr>sessions := AList.delete w (sessions s)\<rparr>)"

definition broadcast :: "env \<Rightarrow> out_msg \<Rightarrow> state \<Rightarrow> state" where
  "broadcast e m s = forEach_send e m (sessions s) s"

fun forEach_send_presenters ::
  "env \<Rightarrow> out_msg \<Rightarrow> (ws \<times> conn) list \<Rightarrow> state \<Rightarrow> state" where
  "forEach_send_presenters e m [] s = s"
| "forEach_send_presenters e m ((w, c) # rest) s =
     forEach_send_presenters e m rest
       (if role c = ''presenter'' then
          (case send e w m s of
             Inr s' \<Rightarrow> s'
           | Inl _ \<Rightarrow> s\<lparr>sessions := AList.delete w (sessions s)\<rparr>)
        else s)"

definition broadcastToPresenters :: "env \<Rightarrow> out_msg \<Rightarrow> state \<Rightarrow> state" where
  "broadcastToPresenters e m s = forEach_send_presenters e m (sessions s) s"

definition broadcastParticipantCount :: "env \<Rightarrow> state \<Rightarrow> state" where
  "broadcastParticipantCount e s = broadcast e (ParticipantsMsg (length (participants s))) s"

subsection \<open>The message handlers\<close>

definition reaction_key :: "int \<Rightarrow> string \<Rightarrow> string" where
  "reaction_key slide emoji = int_to_string slide @ ''-'' @ emoji"

text \<open>\<^verbatim>\<open>this.reactions.get(key) || 0\<close>\<close>

definition get_or_zero :: "(string \<times> nat) list \<Rightarrow> string \<Rightarrow> nat" where
  "get_or_zero rs key = (case map_of rs key of None \<Rightarrow> 0 | Some c \<Rightarrow> c)"

definition handleReaction :: "env \<Rightarrow> string \<Rightarrow> int \<Rightarrow> state \<Rightarrow> state" where
  "handleReaction e emoji slide s =
     (let key = reaction_key slide emoji;
          current = get_or_zero (reactions s) key;
          s1 = s\<lparr>reactions := AList.update key (current + 1) (reactions s)\<rparr>;
          s2 = s1\<lparr>storage := (storage s1)\<lparr>stored_reactions := Some (reactions s1)\<rparr>\<rparr>
      in broadcast e (ReactionMsg emoji slide (current + 1)) s2)"

definition handleQuestion ::
  "env \<Rightarrow> string \<Rightarrow> int \<Rightarrow> string option \<Rightarrow> state \<Rightarrow> state" where
  "handleQuestion e text slide tok s = broadcastToPresenters e (QuestionMsg text slide tok) s"

definition handleSlideChange :: "env \<Rightarrow> int \<Rightarrow> state \<Rightarrow> state" where
  "handleSlideChange e slide s =
     (let s1 = s\<lparr>currentSlide := slide\<rparr>;
          s2 = s1\<lparr>storage := (storage s1)\<lparr>stored_currentSlide := Some (currentSlide s1)\<rparr>\<rparr>
      in broadcast e (SlideChangeMsg (currentSlide s2)) s2)"

text \<open>
  The object spread \<^verbatim>\<open>{ ...this.sessionData, ...data }\<close>: the fields of \<open>data\<close>
  overwrite or extend those of the session data, in order.
\<close>

definition spread :: "obj \<Rightarrow> obj \<Rightarrow> obj" where
  "spread a b = foldl (\<lambda>acc (k, v). AList.update k v acc) a b"

definition handleUpdate :: "env \<Rightarrow> obj \<Rightarrow> state \<Rightarrow> state" where
  "handleUpdate e data s =
     (let s1 = s\<lparr>sessionData := spread (sessionData s) data\<rparr>;
          s2 = s1\<lparr>storage := (storage s1)\<lparr>stored_sessionData := Some (sessionData s1)\<rparr>\<rparr>
      in broadcast e (UpdateMsg data) s2)"

text \<open>A string is truthy when it is present and not empty.\<close>

definition truthy :: "string option \<Rightarrow> bool" where
  "truthy tok = (case tok of None \<Rightarrow> False | Some t \<Rightarrow> t \<noteq> [])"

text \<open>\<^verbatim>\<open>message.sessionToken || `anon-${Date.now()}`\<close>\<close>

definition token_or_anon :: "env \<Rightarrow> string option \<Rightarrow> string" where
  "token_or_anon e tok =
     (case tok of
        None \<Rightarrow> ''anon-'' @ number_to_string (now e)
      | Some t \<Rightarrow> if t \<noteq> [] then t else ''anon-'' @ number_to_string (now e))"

text \<open>\<^verbatim>\<open>Set.add\<close> and \<^verbatim>\<open>Set.delete\<close>\<close>

definition set_add :: "string \<Rightarrow> string list \<Rightarrow> string list" where
  "set_add t ps = (if t \<in> set ps then ps else ps @ [t])"

definition set_delete :: "string \<Rightarrow> string list \<Rightarrow> string list" where
  "set_delete t ps = removeAll t ps"

text \<open>
  A handler returns the state it leaves and the exception it throws, if any. Only the
  two \<^verbatim>\<open>ws.send\<close> calls outside a \<^verbatim>\<open>try\<close> (the init snapshot and the pong) can throw;
  the statements after them are then skipped. In the join case the token added to the
  participants is \<^verbatim>\<open>message.sessionToken\<close>, which is what \<open>token_or_anon\<close> returns
  for a truthy token.
\<close>

fun handleWebSocketMessage :: "env \<Rightarrow> ws \<Rightarrow> message \<Rightarrow> state \<Rightarrow> exn option \<times> state" where
  "handleWebSocketMessage e w (Join r tok) s =
     (let s1 = s\<lparr>sessions :=
                 AList.update w \<lparr>role = r, sessionToken = token_or_anon e tok\<rparr> (sessions s)\<rparr>;
          s2 = (if truthy tok
                then s1\<lparr>participants := set_add (token_or_anon e tok) (participants s1)\<rparr>
                else s1)
      in case send e w
                (InitMsg (currentSlide s2) (reactions s2) (length (participants s2))) s2 of
           Inl x \<Rightarrow> (Some x, s2)
         | Inr s3 \<Rightarrow> (None, broadcastParticipantCount e s3))"
| "handleWebSocketMessage e w (Reaction emoji slide) s = (None, handleReaction e emoji slide s)"
| "handleWebSocketMessage e w (Question text slide tok) s =
     (None, handleQuestion e text slide tok s)"
| "handleWebSocketMessage e w (SlideChange slide) s = (None, handleSlideChange e slide s)"
| "handleWebSocketMessage e w (Update data) s = (None, handleUpdate e data s)"
| "handleWebSocketMessage e w Ping s =
     (case send e w PongMsg s of Inl x \<Rightarrow> (Some x, s) | Inr s' \<Rightarrow> (None, s'))"
| "handleWebSocketMessage e w Other s = (None, s)"

text \<open>
  The \<^verbatim>\<open>message\<close> listener: \<open>None\<close> is a frame that \<^verbatim>\<open>JSON.parse\<close> rejects. Every
  exception is caught and logged; the state the handler reached stays.
\<close>

definition message_listener :: "env \<Rightarrow> ws \<Rightarrow> message option \<Rightarrow> state \<Rightarrow> state" where
  "message_listener e w raw s =
     (case raw of None \<Rightarrow> s | Some m \<Rightarrow> snd (handleWebSocketMessage e w m s))"

text \<open>The \<^verbatim>\<open>close\<close> listener.\<close>

definition close_listener :: "env \<Rightarrow> ws \<Rightarrow> state \<Rightarrow> state" where
  "close_listener e w s =
     (let s1 = (case map_of (sessions s) w of
                  None \<Rightarrow> s
                | Some c \<Rightarrow>
                    if sessionToken c \<noteq> []
                    then s\<lparr>participants := set_delete (sessionToken c) (participants s)\<rparr>
                    else s);
          s2 = s1\<lparr>sessions := AList.delete w (sessions s1)\<rparr>
      in broadcastParticipantCount e s2)"

subsection \<open>The HTTP endpoints\<close>

text \<open>
  \<open>None\<close> is a request whose body \<^verbatim>\<open>request.json()\<close> rejects; the result carries
  the status of the response.
\<close>

definition handleInit :: "obj option \<Rightarrow> state \<Rightarrow> nat \<times> state" where
  "handleInit body s =
     (case body of
        None \<Rightarrow> (400, s)
      | Some data \<Rightarrow>
          (let s1 = s\<lparr>sessionData := data\<rparr>;
               s2 = s1\<lparr>storage := (storage s1)\<lparr>stored_sessionData := Some (sessionData s1)\<rparr>\<rparr>
           in (200, s2)))"

definition handleNotify :: "env \<Rightarrow> json option \<Rightarrow> state \<Rightarrow> nat \<times> state" where
  "handleNotify e body s =
     (case body of
        None \<Rightarrow> (400, s)
      | Some data \<Rightarrow> (200, broadcast e (Forward data) s))"

subsection \<open>Events and runs\<close>

datatype event =
    WsMessage ws "message option"
  | WsClose ws
  | HttpInit "obj option"
  | HttpNotify "json option"

fun step :: "env \<Rightarrow> event \<Rightarrow> state \<Rightarrow> state" where
  "step e (WsMessage w raw) s = message_listener e w raw s"
| "step e (WsClose w) s = close_listener e w s"
| "step e (HttpInit body) s = snd (handleInit body s)"
| "step e (HttpNotify body) s = snd (handleNotify e body s)"

fun run :: "(env \<times> event) list \<Rightarrow> state \<Rightarrow> state" where
  "run [] s = s"
| "run ((e, ev) # evs) s = run evs (step e ev s)"

subsection \<open>closeSession (handlers/realtime.ts)\<close>

text \<open>
  The database client and \<^verbatim>\<open>fetch\<close> are outside the repository. Of the table
  \<^verbatim>\<open>slidev_sessions\<close> the embedding keeps the column \<^verbatim>\<open>is_active\<close> by session id;
  \<open>db_error\<close> is the error the update returns, if any, and \<open>fetch_ok\<close> tells whether
  the request to the \<^verbatim>\<open>/notify\<close> endpoint reaches the coordinator (a failed request is
  caught and logged).
\<close>

record world =
  rows :: "(string \<times> bool) list"
  coordinator :: state

record close_env =
  db_error :: "string option"
  fetch_ok :: bool

definition notifyDurableObject :: "env \<Rightarrow> close_env \<Rightarrow> json \<Rightarrow> world \<Rightarrow> world" where
  "notifyDurableObject e ce data wld =
     (if fetch_ok ce
      then wld\<lparr>coordinator := snd (handleNotify e (Some data) (coordinator wld))\<rparr>
      else wld)"

definition closeSession ::
  "env \<Rightarrow> close_env \<Rightarrow> string \<Rightarrow> string option \<Rightarrow> world \<Rightarrow> string + world" where
  "closeSession e ce sessionId durableObjectId wld =
     (case db_error ce of
        Some msg \<Rightarrow> Inl (''Failed to close session: '' @ msg)
      | None \<Rightarrow>
          (let w1 = wld\<lparr>rows :=
                      map (\<lambda>(i, a). if i = sessionId then (i, False) else (i, a)) (rows wld)\<rparr>
           in Inr (if truthy durableObjectId
                   then notifyDurableObject e ce (JObj [(''type'', JStr ''close'')]) w1
                   else w1)))"

subsection \<open>submitFeedback (handlers/execute.ts)\<close>

text \<open>
  The HTTP path for a reaction or a question. The session is looked up by id in
  \<^verbatim>\<open>slidev_sessions\<close>; \<open>require_auth\<close> is the column of that name in the row found,
  \<open>insert_error\<close> the error the insert into \<^verbatim>\<open>slidev_reactions\<close> or \<^verbatim>\<open>slidev_questions\<close>
  returns, if any (the two tables themselves are not kept), and \<open>notify_ok\<close> tells whether
  the request to \<^verbatim>\<open>/notify\<close> reaches the coordinator. A thrown \<^verbatim>\<open>Error\<close> is \<open>Inl\<close> of
  its message. An absent \<^verbatim>\<open>userId\<close> is left out of the notice by \<^verbatim>\<open>JSON.stringify\<close>.
\<close>

datatype feedback_type = ReactionType | QuestionType

record execute_env =
  require_auth :: bool
  insert_error :: "string option"
  notify_ok :: bool

definition type_name :: "feedback_type \<Rightarrow> string" where
  "type_name ty = (case ty of ReactionType \<Rightarrow> ''reaction'' | QuestionType \<Rightarrow> ''question'')"

definition feedback_notice ::
  "feedback_type \<Rightarrow> int \<Rightarrow> string \<Rightarrow> string \<Rightarrow> string option \<Rightarrow> json" where
  "feedback_notice ty slideNumber val tok uid =
     JObj ([(''type'', JStr (type_name ty)),
            (''slideNumber'', JNum slideNumber),
            (''value'', JStr val),
            (''sessionToken'', JStr tok)]
           @ (case uid of None \<Rightarrow> [] | Some u \<Rightarrow> [(''userId'', JStr u)]))"

definition submitFeedback ::
  "env \<Rightarrow> execute_env \<Rightarrow> string \<Rightarrow> int \<Rightarrow> feedback_type \<Rightarrow> string \<Rightarrow> string \<Rightarrow>
     string option \<Rightarrow> world \<Rightarrow> string + world" where
  "submitFeedback e xe sessionId slideNumber ty val tok uid wld =
     (case map_of (rows wld) sessionId of
        None \<Rightarrow> Inl ''Session not found''
      | Some active \<Rightarrow>
          if \<not> active then Inl ''Session is not active''
          else if require_auth xe \<and> \<not> truthy uid then Inl ''Authentication required''
          else
            (case insert_error xe of
               Some msg \<Rightarrow>
                 Inl ((case ty of
                         ReactionType \<Rightarrow> ''Failed to save reaction: ''
                       | QuestionType \<Rightarrow> ''Failed to save question: '') @ msg)
             | None \<Rightarrow>
                 Inr (if notify_ok xe
                      then wld\<lparr>coordinator :=
                             snd (handleNotify e
                                    (Some (feedback_notice ty slideNumber val tok uid))
                                    (coordinator wld))\<rparr>
                      else wld)))"

subsection \<open>Observers used in the statements\<close>

text \<open>The entries of the registry on which a send succeeds, and those with role presenter.\<close>

definition live :: "env \<Rightarrow> (ws \<times> conn) list \<Rightarrow> (ws \<times> conn) list" where
  "live e xs = filter (\<lambda>(w, c). w \<notin> set (broken e)) xs"

definition presenters :: "(ws \<times> conn) list \<Rightarrow> (ws \<times> conn) list" where
  "presenters xs = filter (\<lambda>(w, c). role c = ''presenter'') xs"

text \<open>What a handler delivered: the part of the outbox added between two states.\<close>

definition delivered :: "state \<Rightarrow> state \<Rightarrow> (ws \<times> out_msg) list" where
  "delivered s s' = drop (length (outbox s)) (outbox s')"

text \<open>The count of a pair (slide, symbol), read as \<^verbatim>\<open>handleReaction\<close> reads it.\<close>

definition tally_count :: "state \<Rightarrow> int \<Rightarrow> string \<Rightarrow> nat" where
  "tally_count s slide emoji = get_or_zero (reactions s) (reaction_key slide emoji)"

text \<open>The events that are a reaction message for the pair (slide, symbol).\<close>

fun is_reaction_for :: "int \<Rightarrow> string \<Rightarrow> event \<Rightarrow> bool" where
  "is_reaction_for slide emoji (WsMessage w (Some (Reaction em sl))) =
     (sl = slide \<and> em = emoji)"
| "is_reaction_for slide emoji ev = False"

definition reaction_calls :: "int \<Rightarrow> string \<Rightarrow> (env \<times> event) list \<Rightarrow> nat" where
  "reaction_calls slide emoji evs = length (filter (is_reaction_for slide emoji) (map snd evs))"

text \<open>
  The slide that the last slide change of a run asks for, or \<open>cur\<close> when the run has
  no slide change.
\<close>

fun last_slide_change :: "int \<Rightarrow> (env \<times> event) list \<Rightarrow> int" where
  "last_slide_change cur [] = cur"
| "last_slide_change cur ((e, WsMessage w (Some (SlideChange n))) # evs) =
     last_slide_change n evs"
| "last_slide_change cur (x # evs) = last_slide_change cur evs"

text \<open>
  The session configuration as the coordinator holds it: the fields \<^verbatim>\<open>slideCount\<close> and
  \<^verbatim>\<open>allowedReactions\<close> of the session data that \<^verbatim>\<open>/init\<close> stored.
\<close>

definition slide_count :: "state \<Rightarrow> int option" where
  "slide_count s =
     (case map_of (sessionData s) ''slideCount'' of Some (JNum n) \<Rightarrow> Some n | _ \<Rightarrow> None)"

definition allowed_reactions :: "state \<Rightarrow> json list option" where
  "allowed_reactions s =
     (case map_of (sessionData s) ''allowedReactions'' of Some (JArr xs) \<Rightarrow> Some xs | _ \<Rightarrow> None)"

text \<open>Decimal digits, for reading a printed number back.\<close>

definition is_digit :: "char \<Rightarrow> bool" where
  "is_digit c = (c \<in> set ''0123456789'')"

definition digit_val :: "char \<Rightarrow> nat" where
  "digit_val c = of_char c - 48"

definition digits_val :: "string \<Rightarrow> nat" where
  "digits_val cs = foldl (\<lambda>a c. 10 * a + digit_val c) 0 cs"

subsection \<open>A session used in the examples\<close>

text \<open>
  A session of three slides that allows the symbols \<open>thumbsup\<close> and \<open>fire\<close>; socket 1
  joined as presenter and socket 2 as audience. No send fails in \<open>env0\<close>.
\<close>

definition env0 :: env where
  "env0 = \<lparr>broken = [], now = 5\<rparr>"

definition demo_config :: obj where
  "demo_config =
     [(''slideCount'', JNum 3),
      (''allowedReactions'', JArr [JStr ''thumbsup'', JStr ''fire''])]"

definition demo :: state where
  "demo =
     run [(env0, HttpInit (Some demo_config)),
          (env0, WsMessage 1 (Some (Join ''presenter'' (Some ''tokP'')))),
          (env0, WsMessage 2 (Some (Join ''audience'' (Some ''tokA''))))]
       (construct empty_storage)"

text \<open>The same session when the send to socket 1 throws.\<close>

definition env_broken1 :: env where
  "env_broken1 = \<lparr>broken = [1], now = 5\<rparr>"

text \<open>A session in which the sockets 1 and 2 joined with the same token.\<close>

definition twin :: state where
  "twin =
     run [(env0, WsMessage 1 (Some (Join ''audience'' (Some ''tokA'')))),
          (env0, WsMessage 2 (Some (Join ''audience'' (Some ''tokA''))))]
       (construct empty_storage)"

text \<open>A session in which socket 1 joined with the token \<open>anon-5\<close>.\<close>

definition anon_taken :: state where
  "anon_taken =
     run [(env0, WsMessage 1 (Some (Join ''audience'' (Some ''anon-5''))))]
       (construct empty_storage)"

text \<open>The session \<open>demo\<close> with its row in the database, and a close that goes through.\<close>

definition close_notice :: json where
  "close_notice = JObj [(''type'', JStr ''close'')]"

definition demo_world :: world where
  "demo_world = \<lparr>rows = [(''sess'', True)], coordinator = demo\<rparr>"

definition close_ok :: close_env where
  "close_ok = \<lparr>db_error = None, fetch_ok = True\<rparr>"

definition closed_world :: world where
  "closed_world =
     \<lparr>rows = [(''sess'', False)], coordinator = broadcast env0 (Forward close_notice) demo\<rparr>"

text \<open>A submission over HTTP that goes through, and the notice of a question.\<close>

definition submit_ok :: execute_env where
  "submit_ok = \<lparr>require_auth = False, insert_error = None, notify_ok = True\<rparr>"

definition why_notice :: json where
  "why_notice =
     JObj [(''type'', JStr ''question''), (''slideNumber'', JNum 1), (''value'', JStr ''why''),
           (''sessionToken'', JStr ''tokA'')]"

text \<open>The session \<open>demo\<close> after socket 3 joined without a token at time 5.\<close>

definition anon_joined :: state where
  "anon_joined = snd (handleWebSocketMessage env0 3 (Join ''audience'' None) demo)"

text \<open>An environment in which the send to socket 3 throws.\<close>

definition env_broken3 :: env where
  "env_broken3 = \<lparr>broken = [3], now = 5\<rparr>"

section \<open>Printing numbers is injective\<close>

lemma digit_val_digit_char: "d < 10 \<Longrightarrow> digit_val (digit_char d) = d"
proof -
  assume "d < 10"
  then have "d \<in> {0,1,2,3,4,5,6,7,8,9}" by auto
  then show ?thesis by (auto simp: digit_val_def digit_char_def)
qed

lemma is_digit_digit_char: "d < 10 \<Longrightarrow> is_digit (digit_char d)"
proof -
  assume "d < 10"
  then have "d \<in> {0,1,2,3,4,5,6,7,8,9}" by auto
  then show ?thesis by (auto simp: is_digit_def digit_char_def)
qed

lemma digits_val_number_to_string: "digits_val (number_to_string n) = n"
proof (induction n rule: number_to_string.induct)
  case (1 n)
  show ?case
  proof (cases "n < 10")
    case True
    then show ?thesis
      by (subst number_to_string.simps) (simp add: digits_val_def digit_val_digit_char)
  next
    case False
    with 1 have "digits_val (number_to_string (n div 10)) = n div 10" by simp
    with False show ?thesis
      by (subst number_to_string.simps) (simp add: digits_val_def digit_val_digit_char)
  qed
qed

lemma number_to_string_inj: "number_to_string a = number_to_string b \<Longrightarrow> a = b"
  by (metis digits_val_number_to_string)

lemma number_to_string_digits: "c \<in> set (number_to_string n) \<Longrightarrow> is_digit c"
proof (induction n rule: number_to_string.induct)
  case (1 n)
  show ?case
  proof (cases "n < 10")
    case True
    with "1.prems" show ?thesis
      by (subst (asm) number_to_string.simps) (simp add: is_digit_digit_char)
  next
    case False
    with 1 show ?thesis
      by (subst (asm) (2) number_to_string.simps) (auto simp add: is_digit_digit_char)
  qed
qed

lemma number_to_string_nonempty: "number_to_string n \<noteq> []"
  by (subst number_to_string.simps) simp

lemma dash_not_digit: "\<not> is_digit CHR ''-''"
  by (simp add: is_digit_def)

lemma digits_dash_split:
  assumes "\<forall>c \<in> set xs. is_digit c" "\<forall>c \<in> set ys. is_digit c"
    and "xs @ CHR ''-'' # u = ys @ CHR ''-'' # v"
  shows "xs = ys \<and> u = v"
proof -
  have "takeWhile is_digit (xs @ CHR ''-'' # u) = xs"
    using assms(1) by (simp add: takeWhile_append2 dash_not_digit)
  moreover have "takeWhile is_digit (ys @ CHR ''-'' # v) = ys"
    using assms(2) by (simp add: takeWhile_append2 dash_not_digit)
  ultimately have "xs = ys" using assms(3) by simp
  with assms(3) show ?thesis by simp
qed

lemma reaction_key_inj:
  assumes "reaction_key s1 e1 = reaction_key s2 e2"
  shows "s1 = s2 \<and> e1 = e2"
proof -
  have hd_nonneg: "hd (number_to_string n) \<noteq> CHR ''-''" for n
    using number_to_string_nonempty [of n] number_to_string_digits [of "hd (number_to_string n)" n]
      dash_not_digit by (metis hd_in_set)
  have D: "\<forall>c \<in> set (number_to_string n). is_digit c" for n
    using number_to_string_digits by blast
  show ?thesis
  proof (cases "s1 < 0")
    case n1: True
    show ?thesis
    proof (cases "s2 < 0")
      case True
      with n1 assms have "number_to_string (nat (- s1)) @ CHR ''-'' # e1
          = number_to_string (nat (- s2)) @ CHR ''-'' # e2"
        by (simp add: reaction_key_def int_to_string_def)
      from digits_dash_split [OF D D this] n1 True show ?thesis
        by (auto dest: number_to_string_inj)
    next
      case False
      with n1 assms have "CHR ''-'' # number_to_string (nat (- s1)) @ CHR ''-'' # e1
          = number_to_string (nat s2) @ CHR ''-'' # e2"
        by (simp add: reaction_key_def int_to_string_def)
      then have "hd (number_to_string (nat s2)) = CHR ''-''"
        using number_to_string_nonempty [of "nat s2"]
        by (metis hd_append2 list.sel(1))
      with hd_nonneg show ?thesis by blast
    qed
  next
    case p1: False
    show ?thesis
    proof (cases "s2 < 0")
      case True
      with p1 assms have "number_to_string (nat s1) @ CHR ''-'' # e1
          = CHR ''-'' # number_to_string (nat (- s2)) @ CHR ''-'' # e2"
        by (simp add: reaction_key_def int_to_string_def)
      then have "hd (number_to_string (nat s1)) = CHR ''-''"
        using number_to_string_nonempty [of "nat s1"]
        by (metis hd_append2 list.sel(1))
      with hd_nonneg show ?thesis by blast
    next
      case False
      with p1 assms have "number_to_string (nat s1) @ CHR ''-'' # e1
          = number_to_string (nat s2) @ CHR ''-'' # e2"
        by (simp add: reaction_key_def int_to_string_def)
      from digits_dash_split [OF D D this] p1 False show ?thesis
        by (auto dest: number_to_string_inj)
    qed
  qed
qed

section \<open>What a broadcast does\<close>

lemma forEach_send_outbox:
  "outbox (forEach_send e m xs s) = outbox s @ map (\<lambda>(w, c). (w, m)) (live e xs)"
  by (induction xs arbitrary: s) (auto simp: send_def live_def)

lemma forEach_send_sessions:
  "sessions (forEach_send e m xs s) =
     filter (\<lambda>(w, c). \<not> (w \<in> set (broken e) \<and> w \<in> fst ` set xs)) (sessions s)"
proof (induction xs arbitrary: s)
  case Nil
  show ?case by simp
next
  case (Cons x xs)
  obtain w c where x: "x = (w, c)" by (cases x)
  show ?case
    unfolding x by (auto simp: Cons.IH send_def AList.delete_eq intro!: filter_cong)
qed

lemma forEach_send_other:
  "reactions (forEach_send e m xs s) = reactions s"
  "currentSlide (forEach_send e m xs s) = currentSlide s"
  "sessionData (forEach_send e m xs s) = sessionData s"
  "participants (forEach_send e m xs s) = participants s"
  "storage (forEach_send e m xs s) = storage s"
  by (induction xs arbitrary: s; auto simp: send_def)+

lemma broadcast_sessions: "sessions (broadcast e m s) = live e (sessions s)"
  unfolding broadcast_def forEach_send_sessions live_def
  by (rule filter_cong) (auto simp: rev_image_eqI)

lemma broadcast_outbox:
  "outbox (broadcast e m s) = outbox s @ map (\<lambda>(w, c). (w, m)) (live e (sessions s))"
  by (simp add: broadcast_def forEach_send_outbox)

lemma broadcast_other:
  "reactions (broadcast e m s) = reactions s"
  "currentSlide (broadcast e m s) = currentSlide s"
  "sessionData (broadcast e m s) = sessionData s"
  "participants (broadcast e m s) = participants s"
  "storage (broadcast e m s) = storage s"
  by (simp_all add: broadcast_def forEach_send_other)

lemma forEach_send_presenters_outbox:
  "outbox (forEach_send_presenters e m xs s) =
     outbox s @ map (\<lambda>(w, c). (w, m)) (live e (presenters xs))"
  by (induction xs arbitrary: s) (auto simp: send_def live_def presenters_def split: if_splits)

lemma forEach_send_presenters_sessions:
  "sessions (forEach_send_presenters e m xs s) =
     filter (\<lambda>(w, c). \<not> (w \<in> set (broken e) \<and> w \<in> fst ` set (presenters xs))) (sessions s)"
proof (induction xs arbitrary: s)
  case Nil
  show ?case by (simp add: presenters_def)
next
  case (Cons x xs)
  obtain w c where x: "x = (w, c)" by (cases x)
  show ?case
    unfolding x by (auto simp: Cons.IH send_def AList.delete_eq presenters_def intro!: filter_cong)
qed

lemma forEach_send_presenters_other:
  "reactions (forEach_send_presenters e m xs s) = reactions s"
  "currentSlide (forEach_send_presenters e m xs s) = currentSlide s"
  "sessionData (forEach_send_presenters e m xs s) = sessionData s"
  "participants (forEach_send_presenters e m xs s) = participants s"
  "storage (forEach_send_presenters e m xs s) = storage s"
  by (induction xs arbitrary: s; auto simp: send_def)+

section \<open>The reaction tally\<close>

lemma get_or_zero_update:
  "get_or_zero (AList.update k v rs) k' = (if k' = k then v else get_or_zero rs k')"
  by (simp add: get_or_zero_def update_conv')

lemma handleReaction_reactions:
  "reactions (handleReaction e emoji slide s) =
     AList.update (reaction_key slide emoji)
       (get_or_zero (reactions s) (reaction_key slide emoji) + 1) (reactions s)"
  by (simp add: handleReaction_def Let_def broadcast_other)

lemma handleReaction_outbox:
  "outbox (handleReaction e emoji slide s) =
     outbox s @
     map (\<lambda>(w, c). (w, ReactionMsg emoji slide
                          (get_or_zero (reactions s) (reaction_key slide emoji) + 1)))
       (live e (sessions s))"
  by (simp add: handleReaction_def Let_def broadcast_outbox)

lemma handleReaction_tally:
  "tally_count (handleReaction e emoji slide s) sl em =
     (if sl = slide \<and> em = emoji then tally_count s sl em + 1 else tally_count s sl em)"
  using reaction_key_inj [of sl em slide emoji]
  by (auto simp: tally_count_def handleReaction_reactions get_or_zero_update)

lemma step_reactions:
  "reactions (step e ev s) =
     (case ev of
        WsMessage w (Some (Reaction emoji slide)) \<Rightarrow> reactions (handleReaction e emoji slide s)
      | _ \<Rightarrow> reactions s)"
proof (cases ev)
  case (WsMessage w raw)
  show ?thesis
  proof (cases raw)
    case None
    with WsMessage show ?thesis by (simp add: message_listener_def)
  next
    case (Some m)
    with WsMessage show ?thesis
      by (cases m)
        (auto simp: message_listener_def Let_def send_def broadcastParticipantCount_def
          broadcast_other handleQuestion_def broadcastToPresenters_def
          forEach_send_presenters_other handleSlideChange_def handleUpdate_def
          split: sum.splits)
  qed
next
  case (WsClose w)
  then show ?thesis
    by (auto simp: close_listener_def Let_def broadcastParticipantCount_def broadcast_other
        split: option.splits)
next
  case (HttpInit body)
  then show ?thesis by (auto simp: handleInit_def Let_def split: option.splits)
next
  case (HttpNotify body)
  then show ?thesis by (auto simp: handleNotify_def broadcast_other split: option.splits)
qed

lemma step_tally:
  "tally_count (step e ev s) sl em =
     tally_count s sl em + (if is_reaction_for sl em ev then 1 else 0)"
proof (cases "\<exists>w emoji slide. ev = WsMessage w (Some (Reaction emoji slide))")
  case True
  then obtain w emoji slide where ev: "ev = WsMessage w (Some (Reaction emoji slide))" by blast
  have "tally_count (step e ev s) sl em = tally_count (handleReaction e emoji slide s) sl em"
    by (simp add: tally_count_def ev message_listener_def)
  then show ?thesis by (auto simp: handleReaction_tally ev)
next
  case False
  then have "reactions (step e ev s) = reactions s"
    by (auto simp: step_reactions split: event.splits option.splits message.splits)
  moreover from False have "\<not> is_reaction_for sl em ev"
    by (cases "(sl, em, ev)" rule: is_reaction_for.cases) auto
  ultimately show ?thesis by (simp add: tally_count_def)
qed

lemma run_tally:
  "tally_count (run evs s) sl em = tally_count s sl em + reaction_calls sl em evs"
proof (induction evs arbitrary: s)
  case Nil
  show ?case by (simp add: reaction_calls_def)
next
  case (Cons x evs)
  obtain e ev where x: "x = (e, ev)" by (cases x)
  show ?case
    unfolding x by (simp add: Cons.IH step_tally reaction_calls_def)
qed

lemma construct_empty_tally: "tally_count (construct empty_storage) sl em = 0"
  by (simp add: tally_count_def construct_def empty_storage_def get_or_zero_def)

text \<open>
  Claim C1. Along every run of events the count of a pair (slide, symbol) grows by the
  number of reaction messages for that exact pair, so in a session that starts with an
  empty tally it equals that number. Every reaction message is accepted (the handler
  throws nothing), it raises the count of its pair by one, and what it delivers is one
  reaction message to each connection whose send succeeds, with the count after the
  increment in its count field.
\<close>

theorem reaction_tally_counts_calls:
  "tally_count (run evs s) slide emoji = tally_count s slide emoji + reaction_calls slide emoji evs
   \<and> tally_count (run evs (construct empty_storage)) slide emoji = reaction_calls slide emoji evs
   \<and> fst (handleWebSocketMessage e w (Reaction emoji slide) s) = None
   \<and> delivered s (snd (handleWebSocketMessage e w (Reaction emoji slide) s)) =
       map (\<lambda>(w', c). (w', ReactionMsg emoji slide
              (tally_count (snd (handleWebSocketMessage e w (Reaction emoji slide) s)) slide emoji)))
         (live e (sessions s))
   \<and> tally_count (snd (handleWebSocketMessage e w (Reaction emoji slide) s)) slide emoji =
       tally_count s slide emoji + 1"
proof -
  have t: "tally_count (handleReaction e emoji slide s) slide emoji = tally_count s slide emoji + 1"
    by (simp add: handleReaction_tally)
  have "delivered s (handleReaction e emoji slide s) =
      map (\<lambda>(w', c). (w', ReactionMsg emoji slide (tally_count s slide emoji + 1)))
        (live e (sessions s))"
    by (simp add: delivered_def handleReaction_outbox tally_count_def)
  with t show ?thesis
    by (simp add: run_tally construct_empty_tally)
qed

section \<open>Evaluating the examples\<close>

lemmas eval_defs =
  message_listener_def close_listener_def handleInit_def handleNotify_def
  handleReaction_def handleQuestion_def handleSlideChange_def handleUpdate_def
  broadcast_def broadcastToPresenters_def broadcastParticipantCount_def send_def
  token_or_anon_def truthy_def set_add_def set_delete_def construct_def empty_storage_def
  reaction_key_def int_to_string_def get_or_zero_def Let_def

lemma demo_eq:
  "demo =
     \<lparr>sessions = [(1, \<lparr>role = ''presenter'', sessionToken = ''tokP''\<rparr>),
                  (2, \<lparr>role = ''audience'', sessionToken = ''tokA''\<rparr>)],
      reactions = [],
      currentSlide = 1,
      sessionData = demo_config,
      participants = [''tokP'', ''tokA''],
      storage = \<lparr>stored_currentSlide = None, stored_reactions = None,
                 stored_sessionData = Some demo_config\<rparr>,
      outbox = [(1, InitMsg 1 [] 1), (1, ParticipantsMsg 1),
                (2, InitMsg 1 [] 2), (1, ParticipantsMsg 2), (2, ParticipantsMsg 2)]\<rparr>"
  by (simp add: demo_def env0_def eval_defs)

lemma number_to_string_digit: "n < 10 \<Longrightarrow> number_to_string n = [digit_char n]"
  by (subst number_to_string.simps) simp

lemma key_1_skull: "reaction_key 1 ''skull'' = ''1-skull''"
  by (simp add: reaction_key_def int_to_string_def number_to_string_digit digit_char_def)

section \<open>The tally never decreases\<close>

lemma step_count_mono: "get_or_zero (reactions s) k \<le> get_or_zero (reactions (step e ev s)) k"
  by (auto simp: step_reactions handleReaction_reactions get_or_zero_update
      split: event.splits option.splits message.splits)

lemma run_count_mono: "get_or_zero (reactions s) k \<le> get_or_zero (reactions (run evs s)) k"
proof (induction evs arbitrary: s)
  case Nil
  show ?case by simp
next
  case (Cons x evs)
  obtain e ev where x: "x = (e, ev)" by (cases x)
  have "get_or_zero (reactions s) k \<le> get_or_zero (reactions (step e ev s)) k"
    by (rule step_count_mono)
  also have "\<dots> \<le> get_or_zero (reactions (run evs (step e ev s))) k"
    by (rule Cons.IH)
  finally show ?case by (simp add: x)
qed

lemma step_keys_kept: "fst ` set (reactions s) \<subseteq> fst ` set (reactions (step e ev s))"
  by (auto simp: step_reactions handleReaction_reactions dom_update
      split: event.splits option.splits message.splits)

lemma handleSlideChange_fields:
  "reactions (handleSlideChange e n s) = reactions s"
  "currentSlide (handleSlideChange e n s) = n"
  "participants (handleSlideChange e n s) = participants s"
  "sessionData (handleSlideChange e n s) = sessionData s"
  "stored_currentSlide (storage (handleSlideChange e n s)) = Some n"
  "sessions (handleSlideChange e n s) = live e (sessions s)"
  "outbox (handleSlideChange e n s) =
     outbox s @ map (\<lambda>(w, c). (w, SlideChangeMsg n)) (live e (sessions s))"
  by (simp_all add: handleSlideChange_def Let_def broadcast_other broadcast_sessions
      broadcast_outbox)

text \<open>
  Claim C9. No event lowers a count of the tally: for every key, and so for every pair
  (slide, symbol), the count after a step, and after any run, is at least the count
  before, and no entry disappears. A slide change leaves the whole tally as it was.
\<close>

theorem tally_never_decreases:
  "get_or_zero (reactions s) k \<le> get_or_zero (reactions (step e ev s)) k
   \<and> tally_count s slide emoji \<le> tally_count (step e ev s) slide emoji
   \<and> tally_count s slide emoji \<le> tally_count (run evs s) slide emoji
   \<and> fst ` set (reactions s) \<subseteq> fst ` set (reactions (step e ev s))
   \<and> reactions (snd (handleWebSocketMessage e w (SlideChange n) s)) = reactions s
   \<and> reactions (step e (WsMessage w (Some (SlideChange n))) s) = reactions s"
  by (simp add: step_count_mono run_count_mono step_keys_kept tally_count_def
      handleSlideChange_fields message_listener_def)

section \<open>Slide changes\<close>

lemma step_currentSlide:
  "currentSlide (step e ev s) =
     (case ev of WsMessage w (Some (SlideChange n)) \<Rightarrow> n | _ \<Rightarrow> currentSlide s)"
proof (cases ev)
  case (WsMessage w raw)
  show ?thesis
  proof (cases raw)
    case None
    with WsMessage show ?thesis by (simp add: message_listener_def)
  next
    case (Some m)
    with WsMessage show ?thesis
      by (cases m)
        (auto simp: message_listener_def Let_def send_def broadcastParticipantCount_def
          broadcast_other handleQuestion_def broadcastToPresenters_def
          forEach_send_presenters_other handleSlideChange_fields handleUpdate_def
          handleReaction_def split: sum.splits)
  qed
next
  case (WsClose w)
  then show ?thesis
    by (auto simp: close_listener_def Let_def broadcastParticipantCount_def broadcast_other
        split: option.splits)
next
  case (HttpInit body)
  then show ?thesis by (auto simp: handleInit_def Let_def split: option.splits)
next
  case (HttpNotify body)
  then show ?thesis by (auto simp: handleNotify_def broadcast_other split: option.splits)
qed

lemma last_slide_change_Cons:
  "last_slide_change cur ((e, ev) # evs) =
     last_slide_change
       (case ev of WsMessage w (Some (SlideChange n)) \<Rightarrow> n | _ \<Rightarrow> cur) evs"
  by (simp split: event.splits option.splits message.splits)

lemma run_currentSlide:
  "currentSlide (run evs s) = last_slide_change (currentSlide s) evs"
proof (induction evs arbitrary: s)
  case Nil
  show ?case by simp
next
  case (Cons x evs)
  obtain e ev where x: "x = (e, ev)" by (cases x)
  have "currentSlide (run (x # evs) s) = last_slide_change (currentSlide (step e ev s)) evs"
    by (simp add: x Cons.IH)
  also have "\<dots> = last_slide_change (currentSlide s) (x # evs)"
    unfolding x last_slide_change_Cons step_currentSlide ..
  finally show ?case .
qed

text \<open>
  Claim C2, as amended. The coordinator checks no range: a slide change to any integer,
  inside or outside the slides of the session, throws nothing, sets the cursor to that
  integer, stores it, leaves the session configuration alone, and is broadcast to every
  connection whose send succeeds. So after any run the cursor is the slide that the last
  slide change of the run asked for, whatever it is, or the cursor the run started with
  when it has no slide change.
\<close>

theorem slide_change_accepts_any_slide:
  "fst (handleWebSocketMessage e w (SlideChange n) s) = None
   \<and> currentSlide (snd (handleWebSocketMessage e w (SlideChange n) s)) = n
   \<and> stored_currentSlide (storage (snd (handleWebSocketMessage e w (SlideChange n) s))) = Some n
   \<and> slide_count (snd (handleWebSocketMessage e w (SlideChange n) s)) = slide_count s
   \<and> delivered s (snd (handleWebSocketMessage e w (SlideChange n) s)) =
       map (\<lambda>(w', c). (w', SlideChangeMsg n)) (live e (sessions s))
   \<and> currentSlide (run evs s) = last_slide_change (currentSlide s) evs"
proof -
  have "delivered s (handleSlideChange e n s) =
      map (\<lambda>(w', c). (w', SlideChangeMsg n)) (live e (sessions s))"
    by (simp add: delivered_def handleSlideChange_fields)
  moreover have "slide_count (handleSlideChange e n s) = slide_count s"
    by (simp add: slide_count_def handleSlideChange_fields)
  ultimately show ?thesis
    by (simp add: handleSlideChange_fields run_currentSlide)
qed

text \<open>
  Counterexample to claim C2 as stated: in a session of three slides with the cursor on
  slide 1, a change to slide 7 is not rejected and the cursor becomes 7.
\<close>

theorem out_of_range_slide_is_set:
  "slide_count demo = Some 3
   \<and> currentSlide demo = 1
   \<and> fst (handleWebSocketMessage env0 1 (SlideChange 7) demo) = None
   \<and> currentSlide (snd (handleWebSocketMessage env0 1 (SlideChange 7) demo)) = 7"
  by (simp add: handleSlideChange_fields) (simp add: demo_eq slide_count_def demo_config_def)

text \<open>
  Claim C4, as amended. The coordinator checks no role: a slide change has the same
  effect whichever socket sends it, registered as presenter, as audience or not at all.
  It sets the cursor and is broadcast to every connection whose send succeeds.
\<close>

theorem slide_change_ignores_requester:
  "handleWebSocketMessage e w (SlideChange n) s = handleWebSocketMessage e w' (SlideChange n) s
   \<and> step e (WsMessage w (Some (SlideChange n))) s = step e (WsMessage w' (Some (SlideChange n))) s
   \<and> currentSlide (step e (WsMessage w (Some (SlideChange n))) s) = n
   \<and> delivered s (step e (WsMessage w (Some (SlideChange n))) s) =
       map (\<lambda>(w', c). (w', SlideChangeMsg n)) (live e (sessions s))"
  by (simp add: handleSlideChange_fields message_listener_def delivered_def)

text \<open>
  Counterexample to claim C4 as stated: socket 2 is registered with role audience, and
  its slide change to slide 2 is not refused: the cursor becomes 2 and both connections
  are told so.
\<close>

theorem audience_slide_change_is_applied:
  "map_of (sessions demo) 2 = Some \<lparr>role = ''audience'', sessionToken = ''tokA''\<rparr>
   \<and> fst (handleWebSocketMessage env0 2 (SlideChange 2) demo) = None
   \<and> currentSlide (snd (handleWebSocketMessage env0 2 (SlideChange 2) demo)) = 2
   \<and> delivered demo (snd (handleWebSocketMessage env0 2 (SlideChange 2) demo)) =
       [(1, SlideChangeMsg 2), (2, SlideChangeMsg 2)]"
  by (simp add: handleSlideChange_fields delivered_def)
    (simp add: demo_eq live_def env0_def)

section \<open>Reactions with any symbol\<close>

lemma handleReaction_sessionData_irrelevant:
  "reactions (handleReaction e emoji slide (s\<lparr>sessionData := d\<rparr>)) =
     reactions (handleReaction e emoji slide s)"
  "outbox (handleReaction e emoji slide (s\<lparr>sessionData := d\<rparr>)) =
     outbox (handleReaction e emoji slide s)"
  by (simp_all add: handleReaction_reactions handleReaction_outbox)

text \<open>
  Claim C3, as amended. The coordinator consults no set of allowed symbols: a reaction
  with any symbol throws nothing, leaves the entry of its pair at the old count plus one
  (creating the entry when there was none) and is broadcast with that count to every
  connection whose send succeeds; the session data have no influence on the tally or on
  what is sent.
\<close>

theorem reaction_symbol_is_not_checked:
  "fst (handleWebSocketMessage e w (Reaction emoji slide) s) = None
   \<and> map_of (reactions (snd (handleWebSocketMessage e w (Reaction emoji slide) s)))
        (reaction_key slide emoji) = Some (tally_count s slide emoji + 1)
   \<and> delivered s (snd (handleWebSocketMessage e w (Reaction emoji slide) s)) =
       map (\<lambda>(w', c). (w', ReactionMsg emoji slide (tally_count s slide emoji + 1)))
         (live e (sessions s))
   \<and> reactions (snd (handleWebSocketMessage e w (Reaction emoji slide) (s\<lparr>sessionData := d\<rparr>))) =
       reactions (snd (handleWebSocketMessage e w (Reaction emoji slide) s))
   \<and> outbox (snd (handleWebSocketMessage e w (Reaction emoji slide) (s\<lparr>sessionData := d\<rparr>))) =
       outbox (snd (handleWebSocketMessage e w (Reaction emoji slide) s))"
  by (simp add: handleReaction_sessionData_irrelevant)
    (simp add: handleReaction_reactions handleReaction_outbox update_conv' tally_count_def
      delivered_def)

text \<open>
  Counterexample to claim C3 as stated: the session allows \<open>thumbsup\<close> and \<open>fire\<close>
  only, yet a reaction \<open>skull\<close> on slide 1 is accepted, creates the entry \<open>1-skull\<close>
  with count 1 and is broadcast to both connections.
\<close>

theorem unknown_symbol_is_tallied:
  "allowed_reactions demo = Some [JStr ''thumbsup'', JStr ''fire'']
   \<and> reactions demo = []
   \<and> fst (handleWebSocketMessage env0 2 (Reaction ''skull'' 1) demo) = None
   \<and> reactions (snd (handleWebSocketMessage env0 2 (Reaction ''skull'' 1) demo)) =
       [(''1-skull'', 1)]
   \<and> delivered demo (snd (handleWebSocketMessage env0 2 (Reaction ''skull'' 1) demo)) =
       [(1, ReactionMsg ''skull'' 1 1), (2, ReactionMsg ''skull'' 1 1)]"
  by (simp add: handleReaction_reactions handleReaction_outbox delivered_def key_1_skull)
    (simp add: demo_eq allowed_reactions_def demo_config_def live_def env0_def get_or_zero_def)

section \<open>The registry has distinct keys\<close>

lemma distinct_live: "distinct (map fst xs) \<Longrightarrow> distinct (map fst (live e xs))"
  by (simp add: live_def distinct_map_filter)

lemma map_of_live: "w \<notin> set (broken e) \<Longrightarrow> map_of (live e xs) w = map_of xs w"
  by (induction xs) (auto simp: live_def)

lemma live_idem: "live e (live e xs) = live e xs"
  by (simp add: live_def)

lemma broadcastToPresenters_sessions_distinct:
  "distinct (map fst (sessions s)) \<Longrightarrow> distinct (map fst (sessions (broadcastToPresenters e m s)))"
  by (simp add: broadcastToPresenters_def forEach_send_presenters_sessions distinct_map_filter)

lemma handleWebSocketMessage_distinct:
  assumes "distinct (map fst (sessions s))"
  shows "distinct (map fst (sessions (snd (handleWebSocketMessage e w m s))))"
proof (cases m)
  case (Join r tok)
  have "distinct (map fst (AList.update w c (sessions s)))" for c
    using assms by (rule distinct_update)
  then show ?thesis
    by (auto simp: Join Let_def send_def broadcastParticipantCount_def broadcast_sessions
        distinct_live)
next
  case (Reaction emoji slide)
  with assms show ?thesis
    by (simp add: handleReaction_def Let_def broadcast_sessions distinct_live)
next
  case (Question qtext slide tok)
  with assms show ?thesis
    by (simp add: handleQuestion_def broadcastToPresenters_sessions_distinct)
next
  case (SlideChange n)
  with assms show ?thesis
    by (simp add: handleSlideChange_def Let_def broadcast_sessions distinct_live)
next
  case (Update d)
  with assms show ?thesis
    by (simp add: handleUpdate_def Let_def broadcast_sessions distinct_live)
next
  case Ping
  with assms show ?thesis by (simp add: send_def)
next
  case Other
  with assms show ?thesis by simp
qed

lemma step_distinct:
  assumes "distinct (map fst (sessions s))"
  shows "distinct (map fst (sessions (step e ev s)))"
proof (cases ev)
  case (WsMessage w raw)
  with assms show ?thesis
    by (cases raw) (simp_all add: message_listener_def handleWebSocketMessage_distinct)
next
  case (WsClose w)
  have "distinct (map fst (AList.delete w (sessions s)))"
    using assms by (rule distinct_delete)
  then show ?thesis
    by (auto simp: WsClose close_listener_def Let_def broadcastParticipantCount_def
        broadcast_sessions distinct_live split: option.splits)
next
  case (HttpInit body)
  with assms show ?thesis by (cases body) (simp_all add: handleInit_def Let_def)
next
  case (HttpNotify body)
  with assms show ?thesis
    by (cases body) (simp_all add: handleNotify_def broadcast_sessions distinct_live)
qed

lemma run_distinct:
  "distinct (map fst (sessions s)) \<Longrightarrow> distinct (map fst (sessions (run evs s)))"
proof (induction evs arbitrary: s)
  case Nil
  then show ?case by simp
next
  case (Cons x evs)
  obtain e ev where x: "x = (e, ev)" by (cases x)
  from Cons.prems have "distinct (map fst (sessions (step e ev s)))" by (rule step_distinct)
  then show ?case unfolding x by (simp add: Cons.IH)
qed

lemma reachable_distinct: "distinct (map fst (sessions (run evs (construct st))))"
  by (rule run_distinct) (simp add: construct_def)

section \<open>Questions\<close>

lemma handleQuestion_outbox:
  "outbox (handleQuestion e text slide tok s) =
     outbox s @ map (\<lambda>(w, c). (w, QuestionMsg text slide tok)) (live e (presenters (sessions s)))"
  by (simp add: handleQuestion_def broadcastToPresenters_def forEach_send_presenters_outbox)

text \<open>
  A question that arrives as a WebSocket message: in every reachable state it throws
  nothing and what it delivers is one question message, carrying the text, the slide and
  the token of the submitted message, to each connection registered with role presenter
  whose send succeeds. Every receiver is registered with role presenter, and a connection
  registered with any other role receives nothing.
\<close>

lemma websocket_question_reaches_presenters_only:
  assumes "s = run evs (construct st)"
    and "s' = snd (handleWebSocketMessage e w (Question text slide tok) s)"
  shows "fst (handleWebSocketMessage e w (Question text slide tok) s) = None
    \<and> delivered s s' =
        map (\<lambda>(w', c). (w', QuestionMsg text slide tok)) (live e (presenters (sessions s)))
    \<and> (\<forall>w' m. (w', m) \<in> set (delivered s s') \<longrightarrow>
          m = QuestionMsg text slide tok
          \<and> (\<exists>c. map_of (sessions s) w' = Some c \<and> role c = ''presenter''))
    \<and> (\<forall>w' c. map_of (sessions s) w' = Some c \<and> role c \<noteq> ''presenter'' \<longrightarrow>
          w' \<notin> fst ` set (delivered s s'))"
proof -
  have d: "distinct (map fst (sessions s))"
    unfolding assms(1) by (rule reachable_distinct)
  have del: "delivered s s' =
      map (\<lambda>(w', c). (w', QuestionMsg text slide tok)) (live e (presenters (sessions s)))"
    by (simp add: assms(2) delivered_def handleQuestion_outbox)
  have only: "m = QuestionMsg text slide tok
      \<and> (\<exists>c. map_of (sessions s) w' = Some c \<and> role c = ''presenter'')"
    if "(w', m) \<in> set (delivered s s')" for w' m
  proof -
    from that obtain c where c: "(w', c) \<in> set (sessions s)" "role c = ''presenter''"
      and m: "m = QuestionMsg text slide tok"
      by (auto simp: del live_def presenters_def)
    from d c(1) have "map_of (sessions s) w' = Some c" by simp
    with c(2) m show ?thesis by simp
  qed
  have never: "w' \<notin> fst ` set (delivered s s')"
    if "map_of (sessions s) w' = Some c \<and> role c \<noteq> ''presenter''" for w' c
  proof
    assume "w' \<in> fst ` set (delivered s s')"
    then obtain m where "(w', m) \<in> set (delivered s s')" by auto
    from only [OF this] that show False by auto
  qed
  have "fst (handleWebSocketMessage e w (Question text slide tok) s) = None"
    by simp
  with del only never show ?thesis
    by (intro conjI allI impI) blast+
qed

lemma websocket_question_example:
  "delivered demo (snd (handleWebSocketMessage env0 2 (Question ''why'' 1 (Some ''tokA'')) demo)) =
     [(1, QuestionMsg ''why'' 1 (Some ''tokA''))]
   \<and> map_of (sessions demo) 2 = Some \<lparr>role = ''audience'', sessionToken = ''tokA''\<rparr>
   \<and> 2 \<notin> fst ` set (delivered demo
         (snd (handleWebSocketMessage env0 2 (Question ''why'' 1 (Some ''tokA'')) demo)))"
proof -
  note q = websocket_question_reaches_presenters_only
    [OF demo_def refl, of env0 2 "''why''" 1 "Some ''tokA''"]
  have a: "map_of (sessions demo) 2 = Some \<lparr>role = ''audience'', sessionToken = ''tokA''\<rparr>"
    by (simp add: demo_eq)
  from q have "delivered demo
      (snd (handleWebSocketMessage env0 2 (Question ''why'' 1 (Some ''tokA'')) demo)) =
      map (\<lambda>(w', c). (w', QuestionMsg ''why'' 1 (Some ''tokA'')))
        (live env0 (presenters (sessions demo)))"
    by (rule conjunct1 [OF conjunct2])
  then have b: "delivered demo
      (snd (handleWebSocketMessage env0 2 (Question ''why'' 1 (Some ''tokA'')) demo)) =
      [(1, QuestionMsg ''why'' 1 (Some ''tokA''))]"
    by (simp add: demo_eq live_def presenters_def env0_def)
  from q a have "2 \<notin> fst ` set (delivered demo
      (snd (handleWebSocketMessage env0 2 (Question ''why'' 1 (Some ''tokA'')) demo)))"
    by (elim conjE allE [of _ 2] allE [of _ "\<lparr>role = ''audience'', sessionToken = ''tokA''\<rparr>"])
      simp
  with a b show ?thesis by blast
qed

text \<open>
  Claim C5 fails on the code. A question submitted over HTTP goes through
  \<^verbatim>\<open>submitFeedback\<close>, which posts it with the submitter's token to \<^verbatim>\<open>/notify\<close>, and the
  coordinator broadcasts what it is posted to every registered connection: in the example
  session the notice, token included, is delivered to socket 2, which is registered with
  role audience. The same question sent as a WebSocket message reaches socket 1, the
  presenter, only.
\<close>

theorem submitted_question_reaches_audience:
  "map_of (sessions demo) 2 = Some \<lparr>role = ''audience'', sessionToken = ''tokA''\<rparr>
   \<and> submitFeedback env0 submit_ok ''sess'' 1 QuestionType ''why'' ''tokA'' None demo_world =
       Inr (demo_world\<lparr>coordinator := broadcast env0 (Forward why_notice) demo\<rparr>)
   \<and> delivered demo (broadcast env0 (Forward why_notice) demo) =
       [(1, Forward why_notice), (2, Forward why_notice)]
   \<and> delivered demo (snd (handleWebSocketMessage env0 2 (Question ''why'' 1 (Some ''tokA'')) demo)) =
       [(1, QuestionMsg ''why'' 1 (Some ''tokA''))]"
proof -
  have a: "map_of (sessions demo) 2 = Some \<lparr>role = ''audience'', sessionToken = ''tokA''\<rparr>"
    by (simp add: demo_eq)
  have b: "submitFeedback env0 submit_ok ''sess'' 1 QuestionType ''why'' ''tokA'' None demo_world =
       Inr (demo_world\<lparr>coordinator := broadcast env0 (Forward why_notice) demo\<rparr>)"
    by (simp add: submitFeedback_def submit_ok_def demo_world_def handleNotify_def
        feedback_notice_def type_name_def why_notice_def)
  have c: "delivered demo (broadcast env0 (Forward why_notice) demo) =
       [(1, Forward why_notice), (2, Forward why_notice)]"
    by (simp add: delivered_def broadcast_outbox) (simp add: demo_eq live_def env0_def)
  have d: "delivered demo
      (snd (handleWebSocketMessage env0 2 (Question ''why'' 1 (Some ''tokA'')) demo)) =
       [(1, QuestionMsg ''why'' 1 (Some ''tokA''))]"
    by (simp add: delivered_def handleQuestion_outbox)
      (simp add: demo_eq live_def presenters_def env0_def)
  from a b c d show ?thesis by simp
qed

section \<open>Send failures\<close>

lemma broadcastToPresenters_outbox:
  "outbox (broadcastToPresenters e m s) =
     outbox s @ map (\<lambda>(w, c). (w, m)) (live e (presenters (sessions s)))"
  by (simp add: broadcastToPresenters_def forEach_send_presenters_outbox)

lemma join_broken_throws:
  "w \<in> set (broken e) \<Longrightarrow> fst (handleWebSocketMessage e w (Join r tok) s) = Some (SendFailed w)"
  by (simp add: Let_def send_def)

text \<open>
  Claim C8. A broadcast keeps in the registry exactly the connections whose send
  succeeds and delivers the message to each of them: a connection whose send throws is
  removed and receives nothing, and every other registered connection receives the
  message and stays registered. A broadcast to the presenters delivers to every presenter
  whose send succeeds and removes the presenters whose send throws. No failure reaches the operation that broadcasts: a reaction
  throws nothing, raises its count by one and is delivered to every connection whose
  send succeeds, whatever sockets are broken.
\<close>

theorem broadcast_survives_send_failures:
  "sessions (broadcast e m s) = live e (sessions s)
   \<and> delivered s (broadcast e m s) = map (\<lambda>(w, c). (w, m)) (live e (sessions s))
   \<and> (\<forall>w c. (w, c) \<in> set (sessions s) \<and> w \<notin> set (broken e) \<longrightarrow>
         (w, m) \<in> set (delivered s (broadcast e m s))
         \<and> (w, c) \<in> set (sessions (broadcast e m s)))
   \<and> (\<forall>w. w \<in> set (broken e) \<longrightarrow>
         w \<notin> fst ` set (sessions (broadcast e m s))
         \<and> w \<notin> fst ` set (delivered s (broadcast e m s)))
   \<and> delivered s (broadcastToPresenters e m s) =
       map (\<lambda>(w, c). (w, m)) (live e (presenters (sessions s)))
   \<and> sessions (broadcastToPresenters e m s) =
       filter (\<lambda>(w, c). \<not> (w \<in> set (broken e) \<and> w \<in> fst ` set (presenters (sessions s))))
         (sessions s)
   \<and> (\<forall>w c. (w, c) \<in> set (sessions s) \<and> role c = ''presenter'' \<and> w \<notin> set (broken e) \<longrightarrow>
         (w, m) \<in> set (delivered s (broadcastToPresenters e m s)))
   \<and> fst (handleWebSocketMessage e w0 (Reaction emoji slide) s) = None
   \<and> tally_count (snd (handleWebSocketMessage e w0 (Reaction emoji slide) s)) slide emoji =
       tally_count s slide emoji + 1
   \<and> delivered s (snd (handleWebSocketMessage e w0 (Reaction emoji slide) s)) =
       map (\<lambda>(w, c). (w, ReactionMsg emoji slide (tally_count s slide emoji + 1)))
         (live e (sessions s))"
proof -
  have d: "delivered s (broadcast e m s) = map (\<lambda>(w, c). (w, m)) (live e (sessions s))"
    by (simp add: delivered_def broadcast_outbox)
  have dp: "delivered s (broadcastToPresenters e m s) =
      map (\<lambda>(w, c). (w, m)) (live e (presenters (sessions s)))"
    by (simp add: delivered_def broadcastToPresenters_outbox)
  have a: "(w, m) \<in> set (delivered s (broadcast e m s))
      \<and> (w, c) \<in> set (sessions (broadcast e m s))"
    if "(w, c) \<in> set (sessions s) \<and> w \<notin> set (broken e)" for w c
    using that by (force simp: d broadcast_sessions live_def)
  have b: "w \<notin> fst ` set (sessions (broadcast e m s))
      \<and> w \<notin> fst ` set (delivered s (broadcast e m s))"
    if "w \<in> set (broken e)" for w
    using that by (auto simp: d broadcast_sessions live_def)
  have c: "(w, m) \<in> set (delivered s (broadcastToPresenters e m s))"
    if "(w, c) \<in> set (sessions s) \<and> role c = ''presenter'' \<and> w \<notin> set (broken e)" for w c
    using that by (force simp: dp live_def presenters_def)
  have r: "delivered s (snd (handleWebSocketMessage e w0 (Reaction emoji slide) s)) =
       map (\<lambda>(w, c). (w, ReactionMsg emoji slide (tally_count s slide emoji + 1)))
         (live e (sessions s))"
    by (simp add: delivered_def handleReaction_outbox tally_count_def)
  have t: "tally_count (snd (handleWebSocketMessage e w0 (Reaction emoji slide) s)) slide emoji =
       tally_count s slide emoji + 1"
    by (simp add: handleReaction_tally)
  have n: "fst (handleWebSocketMessage e w0 (Reaction emoji slide) s) = None"
    by simp
  have s: "sessions (broadcast e m s) = live e (sessions s)"
    by (rule broadcast_sessions)
  have sp: "sessions (broadcastToPresenters e m s) =
       filter (\<lambda>(w, c). \<not> (w \<in> set (broken e) \<and> w \<in> fst ` set (presenters (sessions s))))
         (sessions s)"
    by (simp add: broadcastToPresenters_def forEach_send_presenters_sessions)
  from s d a b dp sp c n t r show ?thesis
    by (intro conjI allI impI) blast+
qed

theorem broadcast_survives_send_failures_witness:
  "(2, \<lparr>role = ''audience'', sessionToken = ''tokA''\<rparr>) \<in> set (sessions demo)
   \<and> 2 \<notin> set (broken env_broken1)
   \<and> (2, SlideChangeMsg 2) \<in> set (delivered demo (broadcast env_broken1 (SlideChangeMsg 2) demo))
   \<and> (2, \<lparr>role = ''audience'', sessionToken = ''tokA''\<rparr>)
        \<in> set (sessions (broadcast env_broken1 (SlideChangeMsg 2) demo))
   \<and> 1 \<in> set (broken env_broken1)
   \<and> 1 \<notin> fst ` set (sessions (broadcast env_broken1 (SlideChangeMsg 2) demo))
   \<and> 1 \<notin> fst ` set (delivered demo (broadcast env_broken1 (SlideChangeMsg 2) demo))
   \<and> fst (handleWebSocketMessage env_broken1 2 (Reaction ''fire'' 1) demo) = None"
proof -
  note th = broadcast_survives_send_failures
    [of env_broken1 "SlideChangeMsg 2" demo 2 "''fire''" 1]
  have up: "(2, \<lparr>role = ''audience'', sessionToken = ''tokA''\<rparr>) \<in> set (sessions demo)
      \<and> 2 \<notin> set (broken env_broken1)"
    by (simp add: demo_eq env_broken1_def)
  have down: "1 \<in> set (broken env_broken1)"
    by (simp add: env_broken1_def)
  from th up have a: "(2, SlideChangeMsg 2)
        \<in> set (delivered demo (broadcast env_broken1 (SlideChangeMsg 2) demo))
      \<and> (2, \<lparr>role = ''audience'', sessionToken = ''tokA''\<rparr>)
        \<in> set (sessions (broadcast env_broken1 (SlideChangeMsg 2) demo))"
    by blast
  from th down have b: "1 \<notin> fst ` set (sessions (broadcast env_broken1 (SlideChangeMsg 2) demo))
      \<and> 1 \<notin> fst ` set (delivered demo (broadcast env_broken1 (SlideChangeMsg 2) demo))"
    by blast
  from th have "fst (handleWebSocketMessage env_broken1 2 (Reaction ''fire'' 1) demo) = None"
    by blast
  with up down a b show ?thesis by blast
qed

section \<open>Closing one of two connections of a token\<close>

lemma twin_eq:
  "twin =
     \<lparr>sessions = [(1, \<lparr>role = ''audience'', sessionToken = ''tokA''\<rparr>),
                  (2, \<lparr>role = ''audience'', sessionToken = ''tokA''\<rparr>)],
      reactions = [],
      currentSlide = 1,
      sessionData = [],
      participants = [''tokA''],
      storage = empty_storage,
      outbox = [(1, InitMsg 1 [] 1), (1, ParticipantsMsg 1),
                (2, InitMsg 1 [] 1), (1, ParticipantsMsg 1), (2, ParticipantsMsg 1)]\<rparr>"
  by (simp add: twin_def env0_def eval_defs)

text \<open>
  Claim C6 fails on the code. The sockets 1 and 2 joined with the token \<open>tokA\<close>. When
  socket 1 closes, the token is deleted from the participants although socket 2 is still
  registered with it, and socket 2 is told that there are 0 participants.
\<close>

theorem close_drops_token_of_connected_participant:
  "participants twin = [''tokA'']
   \<and> participants (step env0 (WsClose 1) twin) = []
   \<and> sessions (step env0 (WsClose 1) twin) =
       [(2, \<lparr>role = ''audience'', sessionToken = ''tokA''\<rparr>)]
   \<and> delivered twin (step env0 (WsClose 1) twin) = [(2, ParticipantsMsg 0)]"
  by (simp add: twin_eq delivered_def env0_def eval_defs)

section \<open>Closing a session\<close>

lemma rows_marked_inactive:
  "map_of (map (\<lambda>(i, a). if i = sid then (i, False) else (i, a)) xs) sid \<noteq> Some True"
proof (induction xs)
  case Nil
  show ?case by simp
next
  case (Cons x xs)
  obtain i a where x: "x = (i, a)" by (cases x)
  show ?case
  proof (cases "i = sid")
    case True
    then show ?thesis by (simp add: x)
  next
    case False
    with Cons.IH show ?thesis by (simp add: x)
  qed
qed

lemma closeSession_Inr:
  assumes "closeSession e ce sid doId wld = Inr wld'"
  shows "db_error ce = None"
    and "rows wld' = map (\<lambda>(i, a). if i = sid then (i, False) else (i, a)) (rows wld)"
    and "coordinator wld' =
      (if truthy doId \<and> fetch_ok ce then broadcast e (Forward close_notice) (coordinator wld)
       else coordinator wld)"
  using assms
  by (auto simp: closeSession_def notifyDurableObject_def handleNotify_def close_notice_def
      Let_def split: option.splits if_splits)

text \<open>
  What a close that the database accepts does: it sets the row of the session inactive;
  when a Durable Object id was given and the request reaches the coordinator, the notice
  \<open>{type: close}\<close> is delivered to every connection whose send succeeds and only the
  connections whose send throws leave the registry; otherwise the coordinator is not
  touched. Cursor, tally and participants stay as they were.
\<close>

lemma closeSession_effect:
  assumes "closeSession e ce sid doId wld = Inr wld'"
  shows "rows wld' = map (\<lambda>(i, a). if i = sid then (i, False) else (i, a)) (rows wld)
    \<and> map_of (rows wld') sid \<noteq> Some True
    \<and> sessions (coordinator wld') =
        (if truthy doId \<and> fetch_ok ce then live e (sessions (coordinator wld))
         else sessions (coordinator wld))
    \<and> delivered (coordinator wld) (coordinator wld') =
        (if truthy doId \<and> fetch_ok ce
         then map (\<lambda>(w, c). (w, Forward close_notice)) (live e (sessions (coordinator wld)))
         else [])
    \<and> currentSlide (coordinator wld') = currentSlide (coordinator wld)
    \<and> reactions (coordinator wld') = reactions (coordinator wld)
    \<and> participants (coordinator wld') = participants (coordinator wld)"
proof -
  note c = closeSession_Inr [OF assms]
  have r: "map_of (rows wld') sid \<noteq> Some True"
    unfolding c(2) by (rule rows_marked_inactive)
  have s: "sessions (coordinator wld') =
        (if truthy doId \<and> fetch_ok ce then live e (sessions (coordinator wld))
         else sessions (coordinator wld))"
    by (simp add: c(3) broadcast_sessions)
  have d: "delivered (coordinator wld) (coordinator wld') =
        (if truthy doId \<and> fetch_ok ce
         then map (\<lambda>(w, c). (w, Forward close_notice)) (live e (sessions (coordinator wld)))
         else [])"
    by (simp add: c(3) delivered_def broadcast_outbox)
  have k: "currentSlide (coordinator wld') = currentSlide (coordinator wld)"
    "reactions (coordinator wld') = reactions (coordinator wld)"
    "participants (coordinator wld') = participants (coordinator wld)"
    by (simp_all add: c(3) broadcast_other)
  from c(2) r s d k show ?thesis by simp
qed

lemma close_demo: "closeSession env0 close_ok ''sess'' (Some ''do1'') demo_world = Inr closed_world"
  by (simp add: closeSession_def close_ok_def demo_world_def closed_world_def truthy_def
      notifyDurableObject_def handleNotify_def close_notice_def)

text \<open>
  Claim C7 fails on the code. After the close of the example session the row is inactive
  and both connections were sent the notice, but both are still registered, and the
  coordinator goes on accepting messages: a reaction sent afterwards is tallied and
  broadcast to both, and a slide change sets the cursor. The HTTP path refuses the same
  reaction on the closed session.
\<close>

theorem session_stays_open_after_close:
  "closeSession env0 close_ok ''sess'' (Some ''do1'') demo_world = Inr closed_world
   \<and> sessions (coordinator closed_world) =
       [(1, \<lparr>role = ''presenter'', sessionToken = ''tokP''\<rparr>),
        (2, \<lparr>role = ''audience'', sessionToken = ''tokA''\<rparr>)]
   \<and> delivered demo (coordinator closed_world) =
       [(1, Forward close_notice), (2, Forward close_notice)]
   \<and> fst (handleWebSocketMessage env0 2 (Reaction ''fire'' 1) (coordinator closed_world)) = None
   \<and> reactions (snd (handleWebSocketMessage env0 2 (Reaction ''fire'' 1)
        (coordinator closed_world))) = [(''1-fire'', 1)]
   \<and> delivered (coordinator closed_world)
       (snd (handleWebSocketMessage env0 2 (Reaction ''fire'' 1) (coordinator closed_world))) =
       [(1, ReactionMsg ''fire'' 1 1), (2, ReactionMsg ''fire'' 1 1)]
   \<and> currentSlide (snd (handleWebSocketMessage env0 2 (SlideChange 3)
        (coordinator closed_world))) = 3
   \<and> submitFeedback env0 submit_ok ''sess'' 1 ReactionType ''fire'' ''tokA'' None closed_world =
       Inl ''Session is not active''"
proof -
  have c: "coordinator closed_world =
      demo\<lparr>outbox := outbox demo @ [(1, Forward close_notice), (2, Forward close_notice)]\<rparr>"
    by (simp add: closed_world_def demo_eq env0_def eval_defs)
  have k: "reaction_key 1 ''fire'' = ''1-fire''"
    by (simp add: reaction_key_def int_to_string_def number_to_string_digit digit_char_def)
  have r: "submitFeedback env0 submit_ok ''sess'' 1 ReactionType ''fire'' ''tokA'' None closed_world =
       Inl ''Session is not active''"
    by (simp add: submitFeedback_def closed_world_def)
  show ?thesis
    by (simp add: close_demo handleReaction_reactions handleReaction_outbox delivered_def k r
        handleSlideChange_fields)
      (simp add: c demo_eq live_def env0_def get_or_zero_def)
qed

section \<open>Joining without a token\<close>

lemma token_or_anon_falsy:
  "\<not> truthy tok \<Longrightarrow> token_or_anon e tok = ''anon-'' @ number_to_string (now e)"
  by (auto simp: truthy_def token_or_anon_def split: option.splits)

lemma broadcastParticipantCount_fields:
  "sessions (broadcastParticipantCount e s) = live e (sessions s)"
  "participants (broadcastParticipantCount e s) = participants s"
  "outbox (broadcastParticipantCount e s) =
     outbox s @ map (\<lambda>(w, c). (w, ParticipantsMsg (length (participants s)))) (live e (sessions s))"
  by (simp_all add: broadcastParticipantCount_def broadcast_sessions broadcast_other
      broadcast_outbox)

lemma anonymous_join_fields:
  assumes "\<not> truthy tok"
    and s'_def: "s' = snd (handleWebSocketMessage e w (Join r tok) s)"
    and anon_def: "anon = ''anon-'' @ number_to_string (now e)"
  shows "map_of (sessions s') w = Some \<lparr>role = r, sessionToken = anon\<rparr>"
    and "participants s' = participants s"
    and "w \<notin> set (broken e) \<Longrightarrow> fst (handleWebSocketMessage e w (Join r tok) s) = None"
    and "w \<notin> set (broken e) \<Longrightarrow>
          outbox s' =
            outbox s @ (w, InitMsg (currentSlide s) (reactions s) (length (participants s))) #
              map (\<lambda>(w', c). (w', ParticipantsMsg (length (participants s)))) (sessions s')"
    and "w \<in> set (broken e) \<Longrightarrow>
          fst (handleWebSocketMessage e w (Join r tok) s) = Some (SendFailed w)"
    and "w \<in> set (broken e) \<Longrightarrow> outbox s' = outbox s"
proof -
  show "map_of (sessions s') w = Some \<lparr>role = r, sessionToken = anon\<rparr>"
    using assms(1)
    by (cases "w \<in> set (broken e)")
      (simp_all add: s'_def anon_def Let_def send_def token_or_anon_falsy
        broadcastParticipantCount_fields map_of_live update_conv')
  show "participants s' = participants s"
    using assms(1)
    by (cases "w \<in> set (broken e)")
      (simp_all add: s'_def Let_def send_def broadcastParticipantCount_fields)
  show "w \<notin> set (broken e) \<Longrightarrow> fst (handleWebSocketMessage e w (Join r tok) s) = None"
    by (simp add: Let_def send_def)
  show "w \<notin> set (broken e) \<Longrightarrow>
          outbox s' =
            outbox s @ (w, InitMsg (currentSlide s) (reactions s) (length (participants s))) #
              map (\<lambda>(w', c). (w', ParticipantsMsg (length (participants s)))) (sessions s')"
    using assms(1)
    by (simp add: s'_def Let_def send_def broadcastParticipantCount_fields live_idem)
  show "w \<in> set (broken e) \<Longrightarrow>
          fst (handleWebSocketMessage e w (Join r tok) s) = Some (SendFailed w)"
    by (simp add: Let_def send_def)
  show "w \<in> set (broken e) \<Longrightarrow> outbox s' = outbox s"
    using assms(1) by (simp add: s'_def Let_def send_def)
qed

lemma close_listener_token_absent:
  assumes "map_of (sessions t) w = Some c" and "sessionToken c \<notin> set (participants t)"
  shows "participants (close_listener e w t) = participants t"
    and "outbox (close_listener e w t) =
      outbox t @
      map (\<lambda>(w', c'). (w', ParticipantsMsg (length (participants t))))
        (live e (AList.delete w (sessions t)))"
  using assms
  by (simp_all add: close_listener_def Let_def set_delete_def broadcastParticipantCount_fields)

text \<open>
  Claim C10, as amended. A join that carries no session token (none, or the empty
  string) registers the socket under the token \<open>anon-\<close> followed by the time, and adds
  nothing to the participants. When the send to the socket succeeds, the join throws
  nothing and delivers the init snapshot to it, followed by the participant count to
  every registered connection, both with the number of participants there was before
  the join. When that send throws, the join throws and delivers nothing. The close of the
  socket, right after the join or in any later state of the session in which the socket
  is still registered under the generated token, leaves the participants as they are and
  broadcasts their unchanged number, provided that the generated token is not among the
  participants of the state in which the socket closes.
\<close>

theorem anonymous_join_is_not_counted:
  assumes "\<not> truthy tok"
    and "s' = snd (handleWebSocketMessage e w (Join r tok) s)"
    and "anon = ''anon-'' @ number_to_string (now e)"
  shows "map_of (sessions s') w = Some \<lparr>role = r, sessionToken = anon\<rparr>
    \<and> participants s' = participants s
    \<and> (w \<notin> set (broken e) \<longrightarrow>
          fst (handleWebSocketMessage e w (Join r tok) s) = None
          \<and> delivered s s' =
              (w, InitMsg (currentSlide s) (reactions s) (length (participants s))) #
              map (\<lambda>(w', c). (w', ParticipantsMsg (length (participants s)))) (sessions s'))
    \<and> (w \<in> set (broken e) \<longrightarrow>
          fst (handleWebSocketMessage e w (Join r tok) s) = Some (SendFailed w)
          \<and> delivered s s' = [])
    \<and> (anon \<notin> set (participants s) \<longrightarrow>
          participants (step e' (WsClose w) s') = participants s
          \<and> delivered s' (step e' (WsClose w) s') =
              map (\<lambda>(w', c). (w', ParticipantsMsg (length (participants s))))
                (live e' (AList.delete w (sessions s'))))
    \<and> (\<forall>evs c.
          map_of (sessions (run evs s')) w = Some c \<and> sessionToken c = anon
          \<and> anon \<notin> set (participants (run evs s')) \<longrightarrow>
          participants (step e' (WsClose w) (run evs s')) = participants (run evs s')
          \<and> delivered (run evs s') (step e' (WsClose w) (run evs s')) =
              map (\<lambda>(w', c'). (w', ParticipantsMsg (length (participants (run evs s')))))
                (live e' (AList.delete w (sessions (run evs s')))))"
proof -
  note j = anonymous_join_fields [OF assms]
  have reg: "map_of (sessions s') w = Some \<lparr>role = r, sessionToken = anon\<rparr>"
    by (rule j(1))
  have live_part: "w \<notin> set (broken e) \<longrightarrow>
          fst (handleWebSocketMessage e w (Join r tok) s) = None
          \<and> delivered s s' =
              (w, InitMsg (currentSlide s) (reactions s) (length (participants s))) #
              map (\<lambda>(w', c). (w', ParticipantsMsg (length (participants s)))) (sessions s')"
    using j(3,4) by (simp add: delivered_def)
  have broken_part: "w \<in> set (broken e) \<longrightarrow>
          fst (handleWebSocketMessage e w (Join r tok) s) = Some (SendFailed w)
          \<and> delivered s s' = []"
    using j(5,6) by (simp add: delivered_def)
  have later: "participants (step e' (WsClose w) t) = participants t
      \<and> delivered t (step e' (WsClose w) t) =
          map (\<lambda>(w', c'). (w', ParticipantsMsg (length (participants t))))
            (live e' (AList.delete w (sessions t)))"
    if "map_of (sessions t) w = Some c \<and> sessionToken c = anon \<and> anon \<notin> set (participants t)"
    for t c
  proof -
    from that have m: "map_of (sessions t) w = Some c"
      and n: "sessionToken c \<notin> set (participants t)"
      by simp_all
    show ?thesis
      by (simp add: delivered_def close_listener_token_absent [OF m n])
  qed
  have q: "anon \<notin> set (participants s) \<longrightarrow>
          participants (step e' (WsClose w) s') = participants s
          \<and> delivered s' (step e' (WsClose w) s') =
              map (\<lambda>(w', c). (w', ParticipantsMsg (length (participants s))))
                (live e' (AList.delete w (sessions s')))"
  proof
    assume "anon \<notin> set (participants s)"
    with reg j(2) have "map_of (sessions s') w = Some \<lparr>role = r, sessionToken = anon\<rparr>
        \<and> sessionToken \<lparr>role = r, sessionToken = anon\<rparr> = anon
        \<and> anon \<notin> set (participants s')"
      by simp
    from later [OF this] j(2) show "participants (step e' (WsClose w) s') = participants s
          \<and> delivered s' (step e' (WsClose w) s') =
              map (\<lambda>(w', c). (w', ParticipantsMsg (length (participants s))))
                (live e' (AList.delete w (sessions s')))"
      by simp
  qed
  have l: "\<forall>evs c.
          map_of (sessions (run evs s')) w = Some c \<and> sessionToken c = anon
          \<and> anon \<notin> set (participants (run evs s')) \<longrightarrow>
          participants (step e' (WsClose w) (run evs s')) = participants (run evs s')
          \<and> delivered (run evs s') (step e' (WsClose w) (run evs s')) =
              map (\<lambda>(w', c'). (w', ParticipantsMsg (length (participants (run evs s')))))
                (live e' (AList.delete w (sessions (run evs s'))))"
    using later by blast
  from reg j(2) live_part broken_part q l show ?thesis by blast
qed

lemma anon_joined_eq:
  "anon_joined =
     demo\<lparr>sessions := sessions demo @ [(3, \<lparr>role = ''audience'', sessionToken = ''anon-5''\<rparr>)],
          outbox := outbox demo @
            [(3, InitMsg 1 [] 2), (1, ParticipantsMsg 2), (2, ParticipantsMsg 2),
             (3, ParticipantsMsg 2)]\<rparr>"
  by (simp add: anon_joined_def demo_eq env0_def eval_defs number_to_string_digit digit_char_def)

lemma later_join_tokB:
  "sessions (run [(env0, WsMessage 4 (Some (Join ''audience'' (Some ''tokB''))))] anon_joined) =
     [(1, \<lparr>role = ''presenter'', sessionToken = ''tokP''\<rparr>),
      (2, \<lparr>role = ''audience'', sessionToken = ''tokA''\<rparr>),
      (3, \<lparr>role = ''audience'', sessionToken = ''anon-5''\<rparr>),
      (4, \<lparr>role = ''audience'', sessionToken = ''tokB''\<rparr>)]"
  "participants (run [(env0, WsMessage 4 (Some (Join ''audience'' (Some ''tokB''))))] anon_joined) =
     [''tokP'', ''tokA'', ''tokB'']"
  by (simp_all add: anon_joined_eq demo_eq env0_def eval_defs)

theorem anonymous_join_is_not_counted_witness:
  "\<not> truthy None
   \<and> 3 \<notin> set (broken env0)
   \<and> ''anon-5'' \<notin> set (participants demo)
   \<and> map_of (sessions anon_joined) 3 = Some \<lparr>role = ''audience'', sessionToken = ''anon-5''\<rparr>
   \<and> participants anon_joined = [''tokP'', ''tokA'']
   \<and> delivered demo anon_joined =
       [(3, InitMsg 1 [] 2), (1, ParticipantsMsg 2), (2, ParticipantsMsg 2), (3, ParticipantsMsg 2)]
   \<and> participants (step env0 (WsClose 3) anon_joined) = [''tokP'', ''tokA'']
   \<and> map_of (sessions
         (run [(env0, WsMessage 4 (Some (Join ''audience'' (Some ''tokB''))))] anon_joined)) 3 =
       Some \<lparr>role = ''audience'', sessionToken = ''anon-5''\<rparr>
   \<and> ''anon-5'' \<notin> set (participants
         (run [(env0, WsMessage 4 (Some (Join ''audience'' (Some ''tokB''))))] anon_joined))
   \<and> participants (step env0 (WsClose 3)
         (run [(env0, WsMessage 4 (Some (Join ''audience'' (Some ''tokB''))))] anon_joined)) =
       [''tokP'', ''tokA'', ''tokB'']
   \<and> 3 \<in> set (broken env_broken3)
   \<and> fst (handleWebSocketMessage env_broken3 3 (Join ''audience'' None) demo) =
       Some (SendFailed 3)
   \<and> delivered demo (snd (handleWebSocketMessage env_broken3 3 (Join ''audience'' None) demo)) = []"
proof -
  have f: "\<not> truthy None" by (simp add: truthy_def)
  have a: "''anon-5'' = ''anon-'' @ number_to_string (now env0)"
    by (simp add: env0_def number_to_string_digit digit_char_def)
  have a3: "''anon-5'' = ''anon-'' @ number_to_string (now env_broken3)"
    by (simp add: env_broken3_def number_to_string_digit digit_char_def)
  note th = anonymous_join_is_not_counted [OF f anon_joined_def a, of env0]
  note th3 = anonymous_join_is_not_counted [OF f refl a3, of 3 "''audience''" demo env0]
  have nb: "3 \<notin> set (broken env0)" by (simp add: env0_def)
  have b3: "3 \<in> set (broken env_broken3)" by (simp add: env_broken3_def)
  have np: "''anon-5'' \<notin> set (participants demo)" by (simp add: demo_eq)
  have p: "participants demo = [''tokP'', ''tokA'']" by (simp add: demo_eq)
  from th have 0: "map_of (sessions anon_joined) 3 =
      Some \<lparr>role = ''audience'', sessionToken = ''anon-5''\<rparr>"
    by blast
  from th p have 1: "participants anon_joined = [''tokP'', ''tokA'']"
    by simp
  from th np p have 2: "participants (step env0 (WsClose 3) anon_joined) = [''tokP'', ''tokA'']"
    by simp
  from th nb have "delivered demo anon_joined =
      (3, InitMsg (currentSlide demo) (reactions demo) (length (participants demo))) #
      map (\<lambda>(w', c). (w', ParticipantsMsg (length (participants demo)))) (sessions anon_joined)"
    by blast
  then have 3: "delivered demo anon_joined =
       [(3, InitMsg 1 [] 2), (1, ParticipantsMsg 2), (2, ParticipantsMsg 2), (3, ParticipantsMsg 2)]"
    by (simp only: anon_joined_eq) (simp add: demo_eq)
  from th3 b3 have 4: "fst (handleWebSocketMessage env_broken3 3 (Join ''audience'' None) demo) =
       Some (SendFailed 3)
     \<and> delivered demo (snd (handleWebSocketMessage env_broken3 3 (Join ''audience'' None) demo)) = []"
    by blast
  have 5: "map_of (sessions
         (run [(env0, WsMessage 4 (Some (Join ''audience'' (Some ''tokB''))))] anon_joined)) 3 =
       Some \<lparr>role = ''audience'', sessionToken = ''anon-5''\<rparr>
     \<and> sessionToken \<lparr>role = ''audience'', sessionToken = ''anon-5''\<rparr> = ''anon-5''
     \<and> ''anon-5'' \<notin> set (participants
         (run [(env0, WsMessage 4 (Some (Join ''audience'' (Some ''tokB''))))] anon_joined))"
    by (simp only: later_join_tokB) simp
  from th 5 have "participants (step env0 (WsClose 3)
         (run [(env0, WsMessage 4 (Some (Join ''audience'' (Some ''tokB''))))] anon_joined)) =
       participants (run [(env0, WsMessage 4 (Some (Join ''audience'' (Some ''tokB''))))] anon_joined)"
    by blast
  then have 6: "participants (step env0 (WsClose 3)
         (run [(env0, WsMessage 4 (Some (Join ''audience'' (Some ''tokB''))))] anon_joined)) =
       [''tokP'', ''tokA'', ''tokB'']"
    by (simp only: later_join_tokB)
  from f nb np 0 1 2 3 b3 4 5 6 show ?thesis by blast
qed

lemma anon_taken_eq:
  "anon_taken =
     \<lparr>sessions = [(1, \<lparr>role = ''audience'', sessionToken = ''anon-5''\<rparr>)],
      reactions = [],
      currentSlide = 1,
      sessionData = [],
      participants = [''anon-5''],
      storage = empty_storage,
      outbox = [(1, InitMsg 1 [] 1), (1, ParticipantsMsg 1)]\<rparr>"
  by (simp add: anon_taken_def env0_def eval_defs)

text \<open>
  Counterexample to claim C10 as stated. Socket 1 joined with the token \<open>anon-5\<close>;
  socket 2 joins without a token at time 5 and then closes, which empties the
  participants although socket 1 is still connected. The same happens when the equal
  token arrives later: socket 3 joined the example session without a token at time 5,
  socket 4 then joins with the token \<open>anon-5\<close>, and the close of socket 3 removes that
  token. And a join without a token on a socket whose send throws receives no init
  snapshot.
\<close>

theorem anonymous_close_removes_equal_token:
  "participants anon_taken = [''anon-5'']
   \<and> participants (snd (handleWebSocketMessage env0 2 (Join ''audience'' None) anon_taken)) =
       [''anon-5'']
   \<and> participants (step env0 (WsClose 2)
        (snd (handleWebSocketMessage env0 2 (Join ''audience'' None) anon_taken))) = []
   \<and> participants
        (run [(env0, WsMessage 4 (Some (Join ''audience'' (Some ''anon-5''))))] anon_joined) =
       [''tokP'', ''tokA'', ''anon-5'']
   \<and> participants (step env0 (WsClose 3)
        (run [(env0, WsMessage 4 (Some (Join ''audience'' (Some ''anon-5''))))] anon_joined)) =
       [''tokP'', ''tokA'']
   \<and> fst (handleWebSocketMessage env_broken3 3 (Join ''audience'' None) demo) =
       Some (SendFailed 3)
   \<and> delivered demo (snd (handleWebSocketMessage env_broken3 3 (Join ''audience'' None) demo)) = []"
  by (simp add: anon_taken_eq anon_joined_eq demo_eq delivered_def env0_def env_broken3_def
      eval_defs number_to_string_digit digit_char_def)

section \<open>The participants list has no duplicates\<close>

text \<open>
  In every reachable state the list of participants has no duplicates, so that its length
  is the size of the \<^verbatim>\<open>Set\<close> it stands for.
\<close>

lemma set_add_distinct: "distinct ps \<Longrightarrow> distinct (set_add t ps)"
  by (simp add: set_add_def)

lemma handleWebSocketMessage_participants_distinct:
  assumes "distinct (participants s)"
  shows "distinct (participants (snd (handleWebSocketMessage e w m s)))"
proof (cases m)
  case (Join r tok)
  with assms show ?thesis
    by (auto simp: Let_def send_def broadcastParticipantCount_fields set_add_distinct)
next
  case (Reaction emoji slide)
  with assms show ?thesis by (simp add: handleReaction_def Let_def broadcast_other)
next
  case (Question qtext slide tok)
  with assms show ?thesis
    by (simp add: handleQuestion_def broadcastToPresenters_def forEach_send_presenters_other)
next
  case (SlideChange n)
  with assms show ?thesis by (simp add: handleSlideChange_fields)
next
  case (Update d)
  with assms show ?thesis by (simp add: handleUpdate_def Let_def broadcast_other)
next
  case Ping
  with assms show ?thesis by (simp add: send_def)
next
  case Other
  with assms show ?thesis by simp
qed

lemma step_participants_distinct:
  assumes "distinct (participants s)"
  shows "distinct (participants (step e ev s))"
proof (cases ev)
  case (WsMessage w raw)
  with assms show ?thesis
    by (cases raw)
      (simp_all add: message_listener_def handleWebSocketMessage_participants_distinct)
next
  case (WsClose w)
  with assms show ?thesis
    by (auto simp: close_listener_def Let_def broadcastParticipantCount_fields set_delete_def
        distinct_removeAll split: option.splits)
next
  case (HttpInit body)
  with assms show ?thesis by (cases body) (simp_all add: handleInit_def Let_def)
next
  case (HttpNotify body)
  with assms show ?thesis
    by (cases body) (simp_all add: handleNotify_def broadcast_other)
qed

lemma reachable_participants_distinct: "distinct (participants (run evs (construct st)))"
proof -
  have "distinct (participants s) \<Longrightarrow> distinct (participants (run evs s))" for s
  proof (induction evs arbitrary: s)
    case Nil
    then show ?case by simp
  next
    case (Cons x evs)
    obtain e ev where x: "x = (e, ev)" by (cases x)
    from Cons.prems have "distinct (participants (step e ev s))"
      by (rule step_participants_distinct)
    then show ?case unfolding x by (simp add: Cons.IH)
  qed
  then show ?thesis by (simp add: construct_def)
qed

end
